theory Spec2Isabelle
  imports Complex_Main "HOL-Library.Word" "HOL-Library.Stream"
begin

unbundle bit_operations_syntax

section \<open>Strings, bytes and hexadecimal text\<close>

text \<open>
  A JavaScript string is represented by the byte sequence of its UTF-8 encoding, which is
  what every primitive of the client consumes (\<^verbatim>\<open>hash.update(str)\<close>, \<^verbatim>\<open>sm3(str)\<close>,
  \<^verbatim>\<open>sm4.encrypt(str, ...)\<close> all encode their string argument as UTF-8 first). The strings the
  client itself builds (timestamps, UUIDs, hexadecimal keys and digests) are ASCII, where a
  byte is a UTF-16 code unit. Strings holding a lone surrogate have no UTF-8 encoding and
  are outside the model.
\<close>

type_synonym byte = "8 word"

definition utf8 :: "string \<Rightarrow> byte list" where
  "utf8 s = map (\<lambda>c. of_nat (of_char c)) s"

definition arrayToUtf8 :: "byte list \<Rightarrow> string" where
  "arrayToUtf8 bs = map (\<lambda>b. char_of (unat b)) bs"

definition hexchar :: "nat \<Rightarrow> char" where
  "hexchar n = ''0123456789abcdef'' ! n"

definition hex_byte :: "byte \<Rightarrow> string" where
  "hex_byte b = [hexchar (unat b div 16), hexchar (unat b mod 16)]"

text \<open>\<^verbatim>\<open>digest('hex')\<close> and sm-crypto's hex output: two lowercase digits per byte.\<close>

definition to_hex :: "byte list \<Rightarrow> string" where
  "to_hex bs = concat (map hex_byte bs)"

text \<open>\<^verbatim>\<open>String.prototype.toUpperCase\<close> on the ASCII range (the client applies it to
  hexadecimal text only).\<close>

definition upper_char :: "char \<Rightarrow> char" where
  "upper_char c =
     (case map_of (zip ''abcdefghijklmnopqrstuvwxyz'' ''ABCDEFGHIJKLMNOPQRSTUVWXYZ'') c of
        Some u \<Rightarrow> u
      | None \<Rightarrow> c)"

definition toUpperCase :: "string \<Rightarrow> string" where
  "toUpperCase s = map upper_char s"

definition is_upper_hex :: "char \<Rightarrow> bool" where
  "is_upper_hex c = (c \<in> set ''0123456789ABCDEF'')"

definition is_lower_hex :: "char \<Rightarrow> bool" where
  "is_lower_hex c = (c \<in> set ''0123456789abcdef'')"

section \<open>Helpers shared by the two hash functions\<close>

text \<open>
  The hash functions compute on 32-bit words. They are written on natural numbers with the
  wrap-around modulo \<open>2 ^ 32\<close> spelled out at every addition and rotation.
\<close>

definition add32 :: "nat \<Rightarrow> nat \<Rightarrow> nat" where
  "add32 a b = (a + b) mod 2 ^ 32"

definition rotr32 :: "nat \<Rightarrow> nat \<Rightarrow> nat" where
  "rotr32 n x = x div 2 ^ n + x mod 2 ^ n * 2 ^ (32 - n)"

definition rotl32 :: "nat \<Rightarrow> nat \<Rightarrow> nat" where
  "rotl32 n x = rotr32 (32 - n mod 32) x"

definition not32 :: "nat \<Rightarrow> nat" where
  "not32 x = 2 ^ 32 - 1 - x"

definition be32 :: "byte list \<Rightarrow> nat" where
  "be32 bs = foldl (\<lambda>acc b. acc * 256 + unat b) 0 bs"

definition bytes_be32 :: "nat \<Rightarrow> byte list" where
  "bytes_be32 x = [of_nat (x div 2 ^ 24 mod 256), of_nat (x div 2 ^ 16 mod 256),
                   of_nat (x div 2 ^ 8 mod 256), of_nat (x mod 256)]"

definition be64 :: "nat \<Rightarrow> byte list" where
  "be64 n = map (\<lambda>i. of_nat (n div 2 ^ (8 * (7 - i)) mod 256)) [0..<8]"

fun chunks :: "nat \<Rightarrow> 'a list \<Rightarrow> 'a list list" where
  "chunks n xs = (if n = 0 \<or> xs = [] then [] else take n xs # chunks n (drop n xs))"

declare chunks.simps [simp del]

text \<open>Merkle-Damgaard padding, the same for SHA-256 and SM3: a one bit, zeros up to 56
  modulo 64 bytes, then the bit length as a 64-bit big-endian number.\<close>

definition md_pad :: "byte list \<Rightarrow> byte list" where
  "md_pad m = m @ [0x80] @ replicate ((119 - length m mod 64) mod 64) 0 @ be64 (8 * length m)"

type_synonym hash_state = "nat \<times> nat \<times> nat \<times> nat \<times> nat \<times> nat \<times> nat \<times> nat"

fun state_bytes :: "hash_state \<Rightarrow> byte list" where
  "state_bytes (a, b, c, d, e, f, g, h) = concat (map bytes_be32 [a, b, c, d, e, f, g, h])"

section \<open>SHA-256, the primitive behind \<^verbatim>\<open>crypto.createHash('sha256')\<close>\<close>

text \<open>
  Node's \<^verbatim>\<open>crypto\<close> module is not part of the repository; the hash it computes is fixed by
  FIPS 180-4 and is written out here so that the signature functions can be evaluated.
  The known-answer lemma \<open>sha256_abc\<close> below ties the definition to the published digest.
\<close>

definition sha256_K :: "nat list" where
  "sha256_K =
   [0x428A2F98, 0x71374491, 0xB5C0FBCF, 0xE9B5DBA5, 0x3956C25B, 0x59F111F1, 0x923F82A4, 0xAB1C5ED5,
    0xD807AA98, 0x12835B01, 0x243185BE, 0x550C7DC3, 0x72BE5D74, 0x80DEB1FE, 0x9BDC06A7, 0xC19BF174,
    0xE49B69C1, 0xEFBE4786, 0x0FC19DC6, 0x240CA1CC, 0x2DE92C6F, 0x4A7484AA, 0x5CB0A9DC, 0x76F988DA,
    0x983E5152, 0xA831C66D, 0xB00327C8, 0xBF597FC7, 0xC6E00BF3, 0xD5A79147, 0x06CA6351, 0x14292967,
    0x27B70A85, 0x2E1B2138, 0x4D2C6DFC, 0x53380D13, 0x650A7354, 0x766A0ABB, 0x81C2C92E, 0x92722C85,
    0xA2BFE8A1, 0xA81A664B, 0xC24B8B70, 0xC76C51A3, 0xD192E819, 0xD6990624, 0xF40E3585, 0x106AA070,
    0x19A4C116, 0x1E376C08, 0x2748774C, 0x34B0BCB5, 0x391C0CB3, 0x4ED8AA4A, 0x5B9CCA4F, 0x682E6FF3,
    0x748F82EE, 0x78A5636F, 0x84C87814, 0x8CC70208, 0x90BEFFFA, 0xA4506CEB, 0xBEF9A3F7, 0xC67178F2]"

definition sha256_H0 :: "hash_state" where
  "sha256_H0 =
   (0x6A09E667, 0xBB67AE85, 0x3C6EF372, 0xA54FF53A, 0x510E527F, 0x9B05688C, 0x1F83D9AB, 0x5BE0CD19)"

definition Ch :: "nat \<Rightarrow> nat \<Rightarrow> nat \<Rightarrow> nat" where
  "Ch x y z = (x AND y) XOR (not32 x AND z)"

definition Maj :: "nat \<Rightarrow> nat \<Rightarrow> nat \<Rightarrow> nat" where
  "Maj x y z = (x AND y) XOR (x AND z) XOR (y AND z)"

definition bsig0 :: "nat \<Rightarrow> nat" where
  "bsig0 x = rotr32 2 x XOR rotr32 13 x XOR rotr32 22 x"

definition bsig1 :: "nat \<Rightarrow> nat" where
  "bsig1 x = rotr32 6 x XOR rotr32 11 x XOR rotr32 25 x"

definition ssig0 :: "nat \<Rightarrow> nat" where
  "ssig0 x = rotr32 7 x XOR rotr32 18 x XOR x div 2 ^ 3"

definition ssig1 :: "nat \<Rightarrow> nat" where
  "ssig1 x = rotr32 17 x XOR rotr32 19 x XOR x div 2 ^ 10"

text \<open>The message schedule: word \<open>t\<close> is appended to the words \<open>w\<close> before it.\<close>

definition sha256_next :: "nat list \<Rightarrow> nat \<Rightarrow> nat list" where
  "sha256_next w t =
     w @ [add32 (add32 (ssig1 (w ! (t - 2))) (w ! (t - 7)))
                (add32 (ssig0 (w ! (t - 15))) (w ! (t - 16)))]"

definition sha256_schedule :: "nat list \<Rightarrow> nat list" where
  "sha256_schedule w = foldl sha256_next w [16..<64]"

text \<open>One round: the two temporaries \<open>t1\<close> and \<open>t2\<close> are computed from the state, then the
  state is shifted.\<close>

fun sha256_shift :: "hash_state \<Rightarrow> nat \<Rightarrow> nat \<Rightarrow> hash_state" where
  "sha256_shift (a, b, c, d, e, f, g, h) t1 t2 = (add32 t1 t2, a, b, c, add32 d t1, e, f, g)"

fun sha256_round :: "hash_state \<Rightarrow> nat \<times> nat \<Rightarrow> hash_state" where
  "sha256_round (a, b, c, d, e, f, g, h) (k, w) =
     sha256_shift (a, b, c, d, e, f, g, h)
       (add32 (add32 (add32 h (bsig1 e)) (Ch e f g)) (add32 k w))
       (add32 (bsig0 a) (Maj a b c))"

fun add_state :: "hash_state \<Rightarrow> hash_state \<Rightarrow> hash_state" where
  "add_state (a, b, c, d, e, f, g, h) (a', b', c', d', e', f', g', h') =
     (add32 a a', add32 b b', add32 c c', add32 d d',
      add32 e e', add32 f f', add32 g g', add32 h h')"

definition sha256_block :: "hash_state \<Rightarrow> byte list \<Rightarrow> hash_state" where
  "sha256_block s blk =
     add_state s (foldl sha256_round s
                    (zip sha256_K (sha256_schedule (map be32 (chunks 4 blk)))))"

definition sha256 :: "byte list \<Rightarrow> byte list" where
  "sha256 m = state_bytes (foldl sha256_block sha256_H0 (chunks 64 (md_pad m)))"

text \<open>\<^verbatim>\<open>crypto.createHash('sha256').update(s).digest('hex')\<close>\<close>

definition createHash_sha256_hex :: "string \<Rightarrow> string" where
  "createHash_sha256_hex s = to_hex (sha256 (utf8 s))"

section \<open>SM3, the primitive behind sm-crypto's \<^verbatim>\<open>sm3\<close>\<close>

text \<open>
  The sm-crypto package is a dependency, not part of the repository. Its \<^verbatim>\<open>sm3(str)\<close> returns
  the lowercase hexadecimal SM3 digest (GB/T 32905-2016) of the bytes it encodes \<^verbatim>\<open>str\<close>
  to; the known-answer lemma \<open>sm3_abc\<close> ties the definition to the standard's example.
\<close>

definition sm3_IV :: "hash_state" where
  "sm3_IV =
   (0x7380166F, 0x4914B2B9, 0x172442D7, 0xDA8A0600, 0xA96F30BC, 0x163138AA, 0xE38DEE4D, 0xB0FB0E4E)"

definition sm3_P0 :: "nat \<Rightarrow> nat" where
  "sm3_P0 x = x XOR rotl32 9 x XOR rotl32 17 x"

definition sm3_P1 :: "nat \<Rightarrow> nat" where
  "sm3_P1 x = x XOR rotl32 15 x XOR rotl32 23 x"

definition sm3_T :: "nat \<Rightarrow> nat" where
  "sm3_T j = (if j < 16 then 0x79CC4519 else 0x7A879D8A)"

definition sm3_FF :: "nat \<Rightarrow> nat \<Rightarrow> nat \<Rightarrow> nat \<Rightarrow> nat" where
  "sm3_FF j x y z = (if j < 16 then x XOR y XOR z else (x AND y) OR (x AND z) OR (y AND z))"

definition sm3_GG :: "nat \<Rightarrow> nat \<Rightarrow> nat \<Rightarrow> nat \<Rightarrow> nat" where
  "sm3_GG j x y z = (if j < 16 then x XOR y XOR z else (x AND y) OR (not32 x AND z))"

definition sm3_next :: "nat list \<Rightarrow> nat \<Rightarrow> nat list" where
  "sm3_next w j =
     w @ [sm3_P1 (w ! (j - 16) XOR w ! (j - 9) XOR rotl32 15 (w ! (j - 3)))
          XOR rotl32 7 (w ! (j - 13)) XOR w ! (j - 6)]"

definition sm3_expand :: "nat list \<Rightarrow> nat list" where
  "sm3_expand w = foldl sm3_next w [16..<68]"

text \<open>One round, with the standard's intermediate values \<open>SS1\<close>, \<open>SS2\<close>, \<open>TT1\<close> and
  \<open>TT2\<close>.\<close>

definition sm3_SS1 :: "nat \<Rightarrow> nat \<Rightarrow> nat \<Rightarrow> nat" where
  "sm3_SS1 j a e = rotl32 7 (add32 (add32 (rotl32 12 a) e) (rotl32 j (sm3_T j)))"

fun sm3_shift :: "hash_state \<Rightarrow> nat \<Rightarrow> nat \<Rightarrow> hash_state" where
  "sm3_shift (a, b, c, d, e, f, g, h) tt1 tt2 =
     (tt1, a, rotl32 9 b, c, sm3_P0 tt2, e, rotl32 19 f, g)"

fun sm3_TT :: "nat list \<Rightarrow> hash_state \<Rightarrow> nat \<Rightarrow> nat \<Rightarrow> hash_state" where
  "sm3_TT w (a, b, c, d, e, f, g, h) j ss1 =
     sm3_shift (a, b, c, d, e, f, g, h)
       (add32 (add32 (sm3_FF j a b c) d) (add32 (ss1 XOR rotl32 12 a) (w ! j XOR w ! (j + 4))))
       (add32 (add32 (sm3_GG j e f g) h) (add32 ss1 (w ! j)))"

fun sm3_round :: "nat list \<Rightarrow> hash_state \<Rightarrow> nat \<Rightarrow> hash_state" where
  "sm3_round w (a, b, c, d, e, f, g, h) j =
     sm3_TT w (a, b, c, d, e, f, g, h) j (sm3_SS1 j a e)"

fun xor_state :: "hash_state \<Rightarrow> hash_state \<Rightarrow> hash_state" where
  "xor_state (a, b, c, d, e, f, g, h) (a', b', c', d', e', f', g', h') =
     (a XOR a', b XOR b', c XOR c', d XOR d', e XOR e', f XOR f', g XOR g', h XOR h')"

definition sm3_block :: "hash_state \<Rightarrow> byte list \<Rightarrow> hash_state" where
  "sm3_block s blk =
     xor_state s (foldl (sm3_round (sm3_expand (map be32 (chunks 4 blk)))) s [0..<64])"

definition sm3_digest :: "byte list \<Rightarrow> byte list" where
  "sm3_digest m = state_bytes (foldl sm3_block sm3_IV (chunks 64 (md_pad m)))"

text \<open>
  \<^verbatim>\<open>sm3(str)\<close> encodes the string with sm-crypto's own routine before hashing. The routine
  writes UTF-8, except that for a code point from U+10000 on it computes the lead byte as
  \<^verbatim>\<open>0xf0 | (point >>> 18) & 0x1c\<close>, where \<^verbatim>\<open>&\<close> binds first: the two low bits of
  \<^verbatim>\<open>point >>> 18\<close> are lost, and the lead bytes F1, F2 and F3 of the code points U+40000
  to U+FFFFF come out as F0. (On a lone surrogate the routine throws; such strings are
  outside the model.)
\<close>

definition sm_lead :: "byte \<Rightarrow> byte" where
  "sm_lead b = (if b = 0xF1 \<or> b = 0xF2 \<or> b = 0xF3 then 0xF0 else b)"

definition sm_utf8ToArray :: "string \<Rightarrow> byte list" where
  "sm_utf8ToArray s = map sm_lead (utf8 s)"

definition sm3 :: "string \<Rightarrow> string" where
  "sm3 s = to_hex (sm3_digest (sm_utf8ToArray s))"

section \<open>Integers as text, and string methods\<close>

fun digits10 :: "nat \<Rightarrow> string" where
  "digits10 n = (if n < 10 then [hexchar n] else digits10 (n div 10) @ [hexchar (n mod 10)])"

declare digits10.simps [simp del]

fun digits16 :: "nat \<Rightarrow> string" where
  "digits16 n = (if n < 16 then [hexchar n] else digits16 (n div 16) @ [hexchar (n mod 16)])"

declare digits16.simps [simp del]

text \<open>
  \<^verbatim>\<open>String(n)\<close> for a number \<open>n\<close> that is an integer of magnitude below \<open>2 ^ 53\<close>: the
  decimal digits, with a minus sign for a negative number. (Larger integers are not all
  binary64 numbers, and JavaScript prints them with rounded digits or an exponent; the
  statements below keep to \<open>\<bar>n\<bar> < 2 ^ 53\<close>.)
\<close>

definition Number_toString :: "int \<Rightarrow> string" where
  "Number_toString n = (if n < 0 then ''-'' else []) @ digits10 (nat \<bar>n\<bar>)"

section \<open>Binary64 arithmetic on the numbers the client computes with\<close>

text \<open>
  A non-negative binary64 number is \<open>m / 2 ^ k\<close> for natural numbers \<open>m\<close> and \<open>k\<close>; it is
  kept as the pair \<open>(m, k)\<close>. A result of \<^verbatim>\<open>Math.random()\<close> is such a number below 1 with
  \<open>m < 2 ^ 53\<close> and \<open>k \<le> 1074\<close>. The sum and the product of such a number with an integer
  constant are rounded to 53 significant bits, ties to even, as binary64 arithmetic does.
\<close>

type_synonym f64 = "nat \<times> nat"

definition is_draw :: "f64 \<Rightarrow> bool" where
  "is_draw x = (case x of (m, k) \<Rightarrow> m < 2 ^ 53 \<and> m < 2 ^ k \<and> k \<le> 1074)"

fun bits :: "nat \<Rightarrow> nat" where
  "bits n = (if n = 0 then 0 else Suc (bits (n div 2)))"

declare bits.simps [simp del]

definition round53 :: "nat \<Rightarrow> nat" where
  "round53 n =
     (if n < 2 ^ 53 then n
      else (if 2 ^ (bits n - 53) < 2 * (n mod 2 ^ (bits n - 53))
               \<or> (2 * (n mod 2 ^ (bits n - 53)) = 2 ^ (bits n - 53)
                   \<and> odd (n div 2 ^ (bits n - 53)))
            then n div 2 ^ (bits n - 53) + 1
            else n div 2 ^ (bits n - 53)) * 2 ^ (bits n - 53))"

text \<open>\<^verbatim>\<open>c + x\<close> and \<^verbatim>\<open>x * c\<close> for an integer constant \<open>c\<close>.\<close>

fun f64_plus :: "nat \<Rightarrow> f64 \<Rightarrow> f64" where
  "f64_plus c (m, k) = (round53 (c * 2 ^ k + m), k)"

fun f64_times :: "f64 \<Rightarrow> nat \<Rightarrow> f64" where
  "f64_times (m, k) c = (round53 (m * c), k)"

fun Math_floor :: "f64 \<Rightarrow> nat" where
  "Math_floor (m, k) = m div 2 ^ k"

text \<open>A number that is not an integer: only such a number prints with a point.\<close>

fun fractional :: "f64 \<Rightarrow> bool" where
  "fractional (m, k) = (m mod 2 ^ k \<noteq> 0)"

text \<open>
  \<^verbatim>\<open>x.toString(16)\<close>: the integer part in lowercase hexadecimal and, only when \<open>x\<close> is not
  an integer, a point followed by the hexadecimal digits of the fraction (a binary64
  fraction has finitely many).
\<close>

fun frac16 :: "nat \<Rightarrow> nat \<Rightarrow> nat \<Rightarrow> string" where
  "frac16 0 f k = []"
| "frac16 (Suc j) f k =
     (if f = 0 then [] else hexchar (16 * f div 2 ^ k) # frac16 j (16 * f mod 2 ^ k) k)"

fun toString16 :: "f64 \<Rightarrow> string" where
  "toString16 (m, k) =
     digits16 (m div 2 ^ k)
     @ (if m mod 2 ^ k = 0 then [] else CHR ''.'' # frac16 k (m mod 2 ^ k) k)"

text \<open>
  \<^verbatim>\<open>(t / 1000).toFixed(3)\<close> for an integer number of milliseconds \<open>t\<close>: the seconds, a
  point, and the milliseconds as three digits. (The quotient is a floating-point number; for
  every \<open>t\<close> a clock can return its three-digit rounding is the exact quotient.)
\<close>

definition toFixed3 :: "int \<Rightarrow> string" where
  "toFixed3 t =
     (if t < 0 then ''-'' else []) @ digits10 (nat \<bar>t\<bar> div 1000) @ ''.''
     @ [hexchar (nat \<bar>t\<bar> div 100 mod 10), hexchar (nat \<bar>t\<bar> div 10 mod 10),
        hexchar (nat \<bar>t\<bar> mod 10)]"

text \<open>\<^verbatim>\<open>s.indexOf(c)\<close> for a one-character \<open>c\<close>: the first position, or \<open>-1\<close>.\<close>

definition indexOf :: "string \<Rightarrow> char \<Rightarrow> int" where
  "indexOf s c = (if c \<in> set s then int (length (takeWhile (\<lambda>d. d \<noteq> c) s)) else - 1)"

text \<open>\<^verbatim>\<open>s.substring(a, b)\<close>: both indices are clamped to \<open>0 .. length\<close>, and swapped when
  the first is the larger.\<close>

definition substring :: "string \<Rightarrow> int \<Rightarrow> int \<Rightarrow> string" where
  "substring s a b =
     (let n = int (length s);
          a' = max 0 (min a n);
          b' = max 0 (min b n)
      in take (nat (max a' b' - min a' b')) (drop (nat (min a' b')) s))"

definition substring_from :: "string \<Rightarrow> int \<Rightarrow> string" where
  "substring_from s a = substring s a (int (length s))"

text \<open>\<^verbatim>\<open>s.slice(a, b)\<close>: a negative index counts from the end; an empty result when the
  end is not after the start.\<close>

definition slice :: "string \<Rightarrow> int \<Rightarrow> int \<Rightarrow> string" where
  "slice s a b =
     (let n = int (length s);
          a' = (if a < 0 then max (n + a) 0 else min a n);
          b' = (if b < 0 then max (n + b) 0 else min b n)
      in take (nat (b' - a')) (drop (nat a') s))"

text \<open>\<^verbatim>\<open>s.padStart(n, c)\<close> for a one-character \<open>c\<close>.\<close>

definition padStart :: "string \<Rightarrow> nat \<Rightarrow> char \<Rightarrow> string" where
  "padStart s n c = replicate (n - length s) c @ s"

section \<open>Configuration\<close>

text \<open>The \<^verbatim>\<open>CONFIG\<close> object of the client, one constant per field.\<close>

definition CONFIG_baseUrl :: string where
  "CONFIG_baseUrl = ''https://i.ka.sz.gov.cn''"

definition CONFIG_aepAppKey :: string where
  "CONFIG_aepAppKey = ''ysxt''"

definition CONFIG_aepSecret :: string where
  "CONFIG_aepSecret = ''791685057029865473''"

definition CONFIG_sm2PublicKey :: string where
  "CONFIG_sm2PublicKey =
     ''04957D171CF9866FAD456FC18578E2F31D07244EC9828E17B990BB7A6F1EF520255A776ADAFC64FD8B9ECA59F4159402DCE0AB6E3AB1D74DCD60B363280F1443E8''"

section \<open>The signature functions\<close>

text \<open>
  \<^verbatim>\<open>generateAepSignature(timestamp, appKey, nonce, secret)\<close>: the four arguments are strings.
\<close>

definition generateAepSignature :: "string \<Rightarrow> string \<Rightarrow> string \<Rightarrow> string \<Rightarrow> string" where
  "generateAepSignature timestamp appKey nonce secret =
     (let signStr = timestamp @ appKey @ nonce @ secret @ timestamp
      in toUpperCase (createHash_sha256_hex signStr))"

definition generateKaSignature :: "string \<Rightarrow> int \<Rightarrow> string" where
  "generateKaSignature nonce timestamp =
     (let signStr = Number_toString timestamp @ nonce @ Number_toString timestamp
      in toUpperCase (sm3 signStr))"

section \<open>The world outside the client: clock, random numbers, network\<close>

text \<open>
  An axios request configuration, as the client builds it. A field the client does not set
  is \<open>None\<close> (axios then applies its default; for \<^verbatim>\<open>timeout\<close> the default is no timeout).
\<close>

record axios_config =
  http_method :: string
  url :: string
  headers :: "(string \<times> string) list"
  payload :: string
  timeout :: "nat option"
  responseType :: "string option"

text \<open>
  The effects of the client are made explicit as a state: the successive results of
  \<^verbatim>\<open>Date.now()\<close> (milliseconds), the successive results of \<^verbatim>\<open>Math.random()\<close> (binary64
  numbers, see \<open>is_draw\<close>), the random
  scalars that \<^verbatim>\<open>sm2.doEncrypt\<close> draws internally, and the log of the network calls issued
  so far (oldest first).
\<close>

record world =
  clock :: "int stream"
  random :: "f64 stream"
  sm2_random :: "nat stream"
  sent :: "axios_config list"

definition Date_now :: "world \<Rightarrow> int \<times> world" where
  "Date_now w = (shd (clock w), w\<lparr>clock := stl (clock w)\<rparr>)"

definition Math_random :: "world \<Rightarrow> f64 \<times> world" where
  "Math_random w = (shd (random w), w\<lparr>random := stl (random w)\<rparr>)"

section \<open>Utility functions\<close>

text \<open>
  The arrow function \<^verbatim>\<open>hex\<close> inside \<^verbatim>\<open>generateUUID\<close>:
  \<^verbatim>\<open>Math.floor((1 + Math.random()) * 0x10000).toString(16).substring(1)\<close>. The floor is an
  integer, which prints as its hexadecimal digits.
\<close>

definition uuid_hex :: "world \<Rightarrow> string \<times> world" where
  "uuid_hex w =
     (case Math_random w of (r, w') \<Rightarrow>
        (substring_from (digits16 (Math_floor (f64_times (f64_plus 1 r) 65536))) 1, w'))"

definition generateUUID :: "world \<Rightarrow> string \<times> world" where
  "generateUUID w0 =
     (case uuid_hex w0 of (h1, w1) \<Rightarrow>
      case uuid_hex w1 of (h2, w2) \<Rightarrow>
      case uuid_hex w2 of (h3, w3) \<Rightarrow>
      case uuid_hex w3 of (h4, w4) \<Rightarrow>
      case uuid_hex w4 of (h5, w5) \<Rightarrow>
      case uuid_hex w5 of (h6, w6) \<Rightarrow>
      case uuid_hex w6 of (h7, w7) \<Rightarrow>
      case uuid_hex w7 of (h8, w8) \<Rightarrow>
        (h1 @ h2 @ ''-'' @ h3 @ ''-'' @ h4 @ ''-'' @ h5 @ ''-'' @ h6 @ h7 @ h8, w8))"

text \<open>
  \<^verbatim>\<open>randomHex(length)\<close>. The \<^verbatim>\<open>while\<close> loop draws until the text is long enough; a run of
  the loop that never ends is the value \<open>None\<close>.
\<close>

partial_function (option) randomHex_loop ::
  "nat \<Rightarrow> string \<Rightarrow> world \<Rightarrow> (string \<times> world) option" where
  "randomHex_loop len result w =
     (if length result < len then
        (case Math_random w of (r, w') \<Rightarrow>
           (let rand = toString16 (f64_times r (10 ^ 10))
            in randomHex_loop len (result @ substring rand 0 (indexOf rand CHR ''.'')) w'))
      else Some (result, w))"

definition randomHex :: "nat \<Rightarrow> world \<Rightarrow> (string \<times> world) option" where
  "randomHex len w =
     (case randomHex_loop len [] w of
        None \<Rightarrow> None
      | Some (result, w') \<Rightarrow> Some (padStart (slice result 0 (int len)) len CHR ''0'', w'))"

section \<open>Wrapping the symmetric key\<close>

text \<open>
  \<^verbatim>\<open>sm2.doEncrypt(msg, publicKey, cipherMode)\<close> of sm-crypto is elliptic-curve encryption with
  a fresh random scalar per call. It is a parameter of the model: a function of the message,
  the public key, the cipher mode and the scalar drawn, returning hexadecimal text.
\<close>

type_synonym sm2_encrypt = "string \<Rightarrow> string \<Rightarrow> nat \<Rightarrow> nat \<Rightarrow> string"

definition encryptKeyWithSm2 ::
  "sm2_encrypt \<Rightarrow> string \<Rightarrow> string \<Rightarrow> world \<Rightarrow> string \<times> world" where
  "encryptKeyWithSm2 doEncrypt key iv w =
     (let plaintext = key @ ''&'' @ iv;
          ciphertext = doEncrypt plaintext CONFIG_sm2PublicKey 1 (shd (sm2_random w))
      in (''04'' @ toUpperCase ciphertext, w\<lparr>sm2_random := stl (sm2_random w)\<rparr>))"

section \<open>JavaScript values and errors\<close>

text \<open>
  The values the client receives and builds: what \<^verbatim>\<open>JSON.parse\<close> can return, \<^verbatim>\<open>undefined\<close>,
  and a byte buffer (the body of a binary download). An object is the list of its
  properties; a property is looked up from the front.
\<close>

datatype js =
    JUndefined
  | JNull
  | JBool bool
  | JNum real
  | JStr string
  | JArr "js list"
  | JObj "(string \<times> js) list"
  | JBuffer "byte list"

text \<open>A thrown value. Every exception the client can meet is an \<^verbatim>\<open>Error\<close> object with a
  message: its own \<^verbatim>\<open>new Error(...)\<close>, the \<^verbatim>\<open>TypeError\<close> of a property read on
  \<^verbatim>\<open>null\<close> or \<^verbatim>\<open>undefined\<close> or of iterating a value that is not iterable, the
  \<^verbatim>\<open>SyntaxError\<close> of \<^verbatim>\<open>JSON.parse\<close>, the errors sm-crypto throws, and the error axios
  rejects with (timeout, connection failure, status outside 2xx).\<close>

datatype error =
    Error string
  | TypeError string
  | SyntaxError string
  | AxiosError string

fun message :: "error \<Rightarrow> string" where
  "message (Error m) = m"
| "message (TypeError m) = m"
| "message (SyntaxError m) = m"
| "message (AxiosError m) = m"

text \<open>Truthiness, as \<^verbatim>\<open>if (v)\<close>, \<^verbatim>\<open>!v\<close> and \<^verbatim>\<open>v || d\<close> test it.\<close>

fun truthy :: "js \<Rightarrow> bool" where
  "truthy JUndefined = False"
| "truthy JNull = False"
| "truthy (JBool b) = b"
| "truthy (JNum x) = (x \<noteq> 0)"
| "truthy (JStr s) = (s \<noteq> [])"
| "truthy (JArr xs) = True"
| "truthy (JObj kvs) = True"
| "truthy (JBuffer bs) = True"

text \<open>\<^verbatim>\<open>v || d\<close>\<close>

definition js_or :: "js \<Rightarrow> js \<Rightarrow> js" where
  "js_or v d = (if truthy v then v else d)"

text \<open>
  A property read \<^verbatim>\<open>v.p\<close>: a \<^verbatim>\<open>TypeError\<close> on \<^verbatim>\<open>null\<close> and \<^verbatim>\<open>undefined\<close>, the property
  or \<^verbatim>\<open>undefined\<close> on an object, the length of a string or array, and \<^verbatim>\<open>undefined\<close> for
  every other name on a primitive, an array or a buffer (the names the client reads are
  \<^verbatim>\<open>rows\<close>, \<^verbatim>\<open>id\<close>, \<^verbatim>\<open>portName\<close>, \<^verbatim>\<open>entryAndExitJson\<close>, \<^verbatim>\<open>code\<close>, \<^verbatim>\<open>type\<close>, \<^verbatim>\<open>name\<close>,
  \<^verbatim>\<open>data\<close>, \<^verbatim>\<open>picUrl\<close>, \<^verbatim>\<open>videoPic\<close> and the status fields of a port; none of them is a
  property of a prototype).
\<close>

fun get_prop :: "js \<Rightarrow> string \<Rightarrow> error + js" where
  "get_prop JUndefined p = Inl (TypeError (''Cannot read properties of undefined (reading '' @ p @ '')''))"
| "get_prop JNull p = Inl (TypeError (''Cannot read properties of null (reading '' @ p @ '')''))"
| "get_prop (JObj kvs) p = Inr (case map_of kvs p of Some v \<Rightarrow> v | None \<Rightarrow> JUndefined)"
| "get_prop (JStr s) p = Inr (if p = ''length'' then JNum (real (length s)) else JUndefined)"
| "get_prop (JArr xs) p = Inr (if p = ''length'' then JNum (real (length xs)) else JUndefined)"
| "get_prop v p = Inr JUndefined"

text \<open>\<^verbatim>\<open>v?.p\<close>\<close>

fun get_prop_opt :: "js \<Rightarrow> string \<Rightarrow> js" where
  "get_prop_opt v p = (case get_prop v p of Inl e \<Rightarrow> JUndefined | Inr x \<Rightarrow> x)"

text \<open>The two functions of the \<^verbatim>\<open>JSON\<close> object are parameters of the model:
  \<^verbatim>\<open>JSON.parse\<close> returns a value or throws a \<^verbatim>\<open>SyntaxError\<close> (\<open>None\<close>), and
  \<^verbatim>\<open>JSON.stringify\<close> returns the text of a serializable value.\<close>

record json_api =
  parse :: "string \<Rightarrow> js option"
  stringify :: "js \<Rightarrow> string"

section \<open>The payload cipher\<close>

text \<open>
  Modelled from the spec: \<^verbatim>\<open>sm4.encrypt\<close> and \<^verbatim>\<open>sm4.decrypt\<close> belong to the sm-crypto
  package, which is not among the sources. Section 4.4 of the specification fixes what they
  do for the options the client passes: the national-standard block cipher in CBC mode with
  PKCS#5/PKCS#7 byte padding under a 16-byte key and a 16-byte iv, both given in
  hexadecimal; the ciphertext is hexadecimal text, the plaintext a string; a bad padding, a
  wrong key or iv and malformed hexadecimal are failures. The block cipher is SM4
  (GB/T 32907-2016), written out here on 32-bit words.
\<close>

type_synonym u32 = "32 word"

type_synonym sm4_state = "u32 \<times> u32 \<times> u32 \<times> u32"

definition word_bytes :: "u32 \<Rightarrow> byte list" where
  "word_bytes x = [ucast (drop_bit 24 x), ucast (drop_bit 16 x), ucast (drop_bit 8 x), ucast x]"

fun bytes_word :: "byte list \<Rightarrow> u32" where
  "bytes_word [b0, b1, b2, b3] =
     push_bit 24 (ucast b0) OR push_bit 16 (ucast b1) OR push_bit 8 (ucast b2) OR ucast b3"
| "bytes_word bs = 0"

definition sm4_Sbox :: "byte list" where
  "sm4_Sbox =
   [0xD6, 0x90, 0xE9, 0xFE, 0xCC, 0xE1, 0x3D, 0xB7, 0x16, 0xB6, 0x14, 0xC2, 0x28, 0xFB, 0x2C, 0x05,
    0x2B, 0x67, 0x9A, 0x76, 0x2A, 0xBE, 0x04, 0xC3, 0xAA, 0x44, 0x13, 0x26, 0x49, 0x86, 0x06, 0x99,
    0x9C, 0x42, 0x50, 0xF4, 0x91, 0xEF, 0x98, 0x7A, 0x33, 0x54, 0x0B, 0x43, 0xED, 0xCF, 0xAC, 0x62,
    0xE4, 0xB3, 0x1C, 0xA9, 0xC9, 0x08, 0xE8, 0x95, 0x80, 0xDF, 0x94, 0xFA, 0x75, 0x8F, 0x3F, 0xA6,
    0x47, 0x07, 0xA7, 0xFC, 0xF3, 0x73, 0x17, 0xBA, 0x83, 0x59, 0x3C, 0x19, 0xE6, 0x85, 0x4F, 0xA8,
    0x68, 0x6B, 0x81, 0xB2, 0x71, 0x64, 0xDA, 0x8B, 0xF8, 0xEB, 0x0F, 0x4B, 0x70, 0x56, 0x9D, 0x35,
    0x1E, 0x24, 0x0E, 0x5E, 0x63, 0x58, 0xD1, 0xA2, 0x25, 0x22, 0x7C, 0x3B, 0x01, 0x21, 0x78, 0x87,
    0xD4, 0x00, 0x46, 0x57, 0x9F, 0xD3, 0x27, 0x52, 0x4C, 0x36, 0x02, 0xE7, 0xA0, 0xC4, 0xC8, 0x9E,
    0xEA, 0xBF, 0x8A, 0xD2, 0x40, 0xC7, 0x38, 0xB5, 0xA3, 0xF7, 0xF2, 0xCE, 0xF9, 0x61, 0x15, 0xA1,
    0xE0, 0xAE, 0x5D, 0xA4, 0x9B, 0x34, 0x1A, 0x55, 0xAD, 0x93, 0x32, 0x30, 0xF5, 0x8C, 0xB1, 0xE3,
    0x1D, 0xF6, 0xE2, 0x2E, 0x82, 0x66, 0xCA, 0x60, 0xC0, 0x29, 0x23, 0xAB, 0x0D, 0x53, 0x4E, 0x6F,
    0xD5, 0xDB, 0x37, 0x45, 0xDE, 0xFD, 0x8E, 0x2F, 0x03, 0xFF, 0x6A, 0x72, 0x6D, 0x6C, 0x5B, 0x51,
    0x8D, 0x1B, 0xAF, 0x92, 0xBB, 0xDD, 0xBC, 0x7F, 0x11, 0xD9, 0x5C, 0x41, 0x1F, 0x10, 0x5A, 0xD8,
    0x0A, 0xC1, 0x31, 0x88, 0xA5, 0xCD, 0x7B, 0xBD, 0x2D, 0x74, 0xD0, 0x12, 0xB8, 0xE5, 0xB4, 0xB0,
    0x89, 0x69, 0x97, 0x4A, 0x0C, 0x96, 0x77, 0x7E, 0x65, 0xB9, 0xF1, 0x09, 0xC5, 0x6E, 0xC6, 0x84,
    0x18, 0xF0, 0x7D, 0xEC, 0x3A, 0xDC, 0x4D, 0x20, 0x79, 0xEE, 0x5F, 0x3E, 0xD7, 0xCB, 0x39, 0x48]"

definition sm4_tau :: "u32 \<Rightarrow> u32" where
  "sm4_tau x = bytes_word (map (\<lambda>b. sm4_Sbox ! unat b) (word_bytes x))"

definition sm4_L :: "u32 \<Rightarrow> u32" where
  "sm4_L b = b XOR word_rotl 2 b XOR word_rotl 10 b XOR word_rotl 18 b XOR word_rotl 24 b"

definition sm4_L' :: "u32 \<Rightarrow> u32" where
  "sm4_L' b = b XOR word_rotl 13 b XOR word_rotl 23 b"

definition sm4_T :: "u32 \<Rightarrow> u32" where
  "sm4_T x = sm4_L (sm4_tau x)"

definition sm4_T' :: "u32 \<Rightarrow> u32" where
  "sm4_T' x = sm4_L' (sm4_tau x)"

definition sm4_FK :: sm4_state where
  "sm4_FK = (0xA3B1BAC6, 0x56AA3350, 0x677D9197, 0xB27022DC)"

definition sm4_CK :: "nat \<Rightarrow> u32" where
  "sm4_CK i = bytes_word (map (\<lambda>j. of_nat ((4 * i + j) * 7 mod 256)) [0..<4])"

fun xor_state4 :: "sm4_state \<Rightarrow> sm4_state \<Rightarrow> sm4_state" where
  "xor_state4 (a, b, c, d) (a', b', c', d') = (a XOR a', b XOR b', c XOR c', d XOR d')"

text \<open>The key schedule: one round key for each index of the list.\<close>

fun sm4_expand :: "sm4_state \<Rightarrow> nat list \<Rightarrow> u32 list" where
  "sm4_expand k [] = []"
| "sm4_expand (k0, k1, k2, k3) (i # rest) =
     (k0 XOR sm4_T' (k1 XOR k2 XOR k3 XOR sm4_CK i))
     # sm4_expand (k1, k2, k3, k0 XOR sm4_T' (k1 XOR k2 XOR k3 XOR sm4_CK i)) rest"

definition block_words :: "byte list \<Rightarrow> sm4_state" where
  "block_words b =
     (bytes_word (take 4 b), bytes_word (take 4 (drop 4 b)),
      bytes_word (take 4 (drop 8 b)), bytes_word (take 4 (drop 12 b)))"

fun words_block :: "sm4_state \<Rightarrow> byte list" where
  "words_block (a, b, c, d) = word_bytes a @ word_bytes b @ word_bytes c @ word_bytes d"

definition sm4_round_keys :: "byte list \<Rightarrow> u32 list" where
  "sm4_round_keys key = sm4_expand (xor_state4 (block_words key) sm4_FK) [0..<32]"

text \<open>The 32 rounds and the final reversal. Decryption is the same function with the round
  keys in reverse order.\<close>

fun sm4_step :: "sm4_state \<Rightarrow> u32 \<Rightarrow> sm4_state" where
  "sm4_step (x0, x1, x2, x3) rk = (x1, x2, x3, x0 XOR sm4_T (x1 XOR x2 XOR x3 XOR rk))"

fun sm4_reverse :: "sm4_state \<Rightarrow> sm4_state" where
  "sm4_reverse (a, b, c, d) = (d, c, b, a)"

definition sm4_crypt :: "u32 list \<Rightarrow> sm4_state \<Rightarrow> sm4_state" where
  "sm4_crypt rks x = sm4_reverse (foldl sm4_step x rks)"

definition sm4_block :: "u32 list \<Rightarrow> byte list \<Rightarrow> byte list" where
  "sm4_block rks b = words_block (sm4_crypt rks (block_words b))"

text \<open>Padding: \<open>n\<close> bytes of value \<open>n\<close>, with \<open>1 \<le> n \<le> 16\<close>, fill the last block.\<close>

definition pkcs_pad :: "byte list \<Rightarrow> byte list" where
  "pkcs_pad bs = bs @ replicate (16 - length bs mod 16) (of_nat (16 - length bs mod 16))"

definition pkcs_unpad :: "byte list \<Rightarrow> error + byte list" where
  "pkcs_unpad bs =
     (if bs = [] then Inl (Error ''padding is invalid'')
      else let n = unat (last bs) in
        if n = 0 \<or> length bs < n \<or> drop (length bs - n) bs \<noteq> replicate n (last bs)
        then Inl (Error ''padding is invalid'')
        else Inr (take (length bs - n) bs))"

definition xor_bytes :: "byte list \<Rightarrow> byte list \<Rightarrow> byte list" where
  "xor_bytes xs ys = map (\<lambda>(x, y). x XOR y) (zip xs ys)"

text \<open>Cipher block chaining over the list of 16-byte blocks, \<open>v\<close> the chaining vector.\<close>

fun cbc_encrypt :: "u32 list \<Rightarrow> byte list \<Rightarrow> byte list list \<Rightarrow> byte list" where
  "cbc_encrypt rks v [] = []"
| "cbc_encrypt rks v (p # ps) =
     sm4_block rks (xor_bytes p v) @ cbc_encrypt rks (sm4_block rks (xor_bytes p v)) ps"

fun cbc_decrypt :: "u32 list \<Rightarrow> byte list \<Rightarrow> byte list list \<Rightarrow> byte list" where
  "cbc_decrypt rks v [] = []"
| "cbc_decrypt rks v (c # cs) = xor_bytes (sm4_block rks c) v @ cbc_decrypt rks c cs"

text \<open>Reading hexadecimal text; \<open>None\<close> when it is malformed.\<close>

definition hex_digit :: "char \<Rightarrow> nat option" where
  "hex_digit c = map_of (zip ''0123456789abcdefABCDEF''
                   [0, 1, 2, 3, 4, 5, 6, 7, 8, 9, 10, 11, 12, 13, 14, 15, 10, 11, 12, 13, 14, 15]) c"

fun hexToArray :: "string \<Rightarrow> byte list option" where
  "hexToArray [] = Some []"
| "hexToArray [c] = None"
| "hexToArray (c # d # rest) =
     (case (hex_digit c, hex_digit d, hexToArray rest) of
        (Some h, Some l, Some bs) \<Rightarrow> Some (of_nat (16 * h + l) # bs)
      | _ \<Rightarrow> None)"

definition sm4_encrypt :: "string \<Rightarrow> string \<Rightarrow> string \<Rightarrow> error + string" where
  "sm4_encrypt plaintext key iv =
     (case hexToArray iv of
        None \<Rightarrow> Inl (Error ''iv is invalid'')
      | Some v \<Rightarrow>
          if length v \<noteq> 16 then Inl (Error ''iv is invalid'')
          else (case hexToArray key of
                  None \<Rightarrow> Inl (Error ''key is invalid'')
                | Some k \<Rightarrow>
                    if length k \<noteq> 16 then Inl (Error ''key is invalid'')
                    else Inr (to_hex (cbc_encrypt (sm4_round_keys k) v
                                        (chunks 16 (pkcs_pad (utf8 plaintext)))))))"

definition sm4_decrypt :: "string \<Rightarrow> string \<Rightarrow> string \<Rightarrow> error + string" where
  "sm4_decrypt ciphertext key iv =
     (case hexToArray iv of
        None \<Rightarrow> Inl (Error ''iv is invalid'')
      | Some v \<Rightarrow>
          if length v \<noteq> 16 then Inl (Error ''iv is invalid'')
          else (case hexToArray key of
                  None \<Rightarrow> Inl (Error ''key is invalid'')
                | Some k \<Rightarrow>
                    if length k \<noteq> 16 then Inl (Error ''key is invalid'')
                    else (case hexToArray ciphertext of
                            None \<Rightarrow> Inl (Error ''ciphertext is invalid'')
                          | Some c \<Rightarrow>
                              if length c mod 16 \<noteq> 0 then Inl (Error ''ciphertext is invalid'')
                              else (case pkcs_unpad (cbc_decrypt (rev (sm4_round_keys k)) v
                                                       (chunks 16 c)) of
                                      Inl e \<Rightarrow> Inl e
                                    | Inr bs \<Rightarrow> Inr (arrayToUtf8 bs)))))"

section \<open>SM4-CBC as the client calls it\<close>

text \<open>
  \<^verbatim>\<open>sm4Encrypt(data, key, iv)\<close> and \<^verbatim>\<open>sm4Decrypt(ciphertext, key, iv)\<close>, with the options
  \<^verbatim>\<open>{mode: 'cbc', padding: 'pkcs#5', iv}\<close> they pass. A string is encrypted as it is, any
  other value after \<^verbatim>\<open>JSON.stringify\<close>.
\<close>

definition sm4Encrypt :: "json_api \<Rightarrow> js \<Rightarrow> string \<Rightarrow> string \<Rightarrow> error + string" where
  "sm4Encrypt json dat key iv =
     (let plaintext = (case dat of JStr s \<Rightarrow> s | _ \<Rightarrow> stringify json dat)
      in sm4_encrypt plaintext key iv)"

definition sm4Decrypt :: "string \<Rightarrow> string \<Rightarrow> string \<Rightarrow> error + string" where
  "sm4Decrypt ciphertext key iv = sm4_decrypt ciphertext key iv"

section \<open>Predicates and sample inputs used in the statements\<close>

text \<open>What one draw \<open>r\<close> appends to the text \<^verbatim>\<open>randomHex\<close> collects: the hexadecimal
  integer part of \<^verbatim>\<open>r * Math.pow(10, 10)\<close> when that product prints with a point, and
  nothing when the product is an integer.\<close>

definition draw_text :: "f64 \<Rightarrow> string" where
  "draw_text r =
     (if fractional (f64_times r (10 ^ 10)) then digits16 (Math_floor (f64_times r (10 ^ 10)))
      else [])"

text \<open>A world that keeps producing draws whose product with \<open>10 ^ 10\<close> has a fractional
  part: after every draw there is a later one of that kind.\<close>

definition productive :: "world \<Rightarrow> bool" where
  "productive w = (\<forall>i. \<exists>j. i \<le> j \<and> fractional (f64_times (random w !! j) (10 ^ 10)))"




definition sample_world :: world where
  "sample_world =
     \<lparr>clock = 1999 ## sconst 2000, random = sconst (2 ^ 51 + 1, 53),
      sm2_random = sconst 7, sent = []\<rparr>"

text \<open>A stand-in for the SM2 primitive in the sample runs: it returns the message in
  lowercase hexadecimal.\<close>

definition sample_sm2 :: sm2_encrypt where
  "sample_sm2 msg publicKey cipherMode k = to_hex (utf8 msg)"

text \<open>The padded single blocks of the messages \<open>abc\<close> (the standards' example) and
  \<open>121\<close>, and of the text \<open>1\<close>, U+E0100, \<open>1\<close> in UTF-8 and as sm-crypto encodes it; they
  are used to evaluate the hash functions in stages.\<close>

definition block_abc :: "byte list" where
  "block_abc = [
      97, 98, 99, 128, 0, 0, 0, 0, 0, 0, 0, 0, 0, 0, 0, 0,
      0, 0, 0, 0, 0, 0, 0, 0, 0, 0, 0, 0, 0, 0, 0, 0,
      0, 0, 0, 0, 0, 0, 0, 0, 0, 0, 0, 0, 0, 0, 0, 0,
      0, 0, 0, 0, 0, 0, 0, 0, 0, 0, 0, 0, 0, 0, 0, 24]"

definition block_s121 :: "byte list" where
  "block_s121 = [
      49, 50, 49, 128, 0, 0, 0, 0, 0, 0, 0, 0, 0, 0, 0, 0,
      0, 0, 0, 0, 0, 0, 0, 0, 0, 0, 0, 0, 0, 0, 0, 0,
      0, 0, 0, 0, 0, 0, 0, 0, 0, 0, 0, 0, 0, 0, 0, 0,
      0, 0, 0, 0, 0, 0, 0, 0, 0, 0, 0, 0, 0, 0, 0, 24]"




text \<open>A string that sm-crypto encodes as UTF-8: no byte of it is F1, F2 or F3.\<close>

definition sm_plain :: "string \<Rightarrow> bool" where
  "sm_plain s = list_all (\<lambda>b. sm_lead b = b) (utf8 s)"

section \<open>Facts about hexadecimal text and digests\<close>

lemma length_bytes_be32: "length (bytes_be32 x) = 4"
  by (simp add: bytes_be32_def)

lemma length_state_bytes: "length (state_bytes s) = 32"
  by (induction s rule: state_bytes.induct) (simp add: length_bytes_be32)

lemma length_sha256: "length (sha256 m) = 32"
  by (simp add: sha256_def length_state_bytes)

lemma length_sm3_digest: "length (sm3_digest m) = 32"
  by (simp add: sm3_digest_def length_state_bytes)

lemma length_to_hex: "length (to_hex bs) = 2 * length bs"
  by (induction bs) (simp_all add: to_hex_def hex_byte_def)

lemma length_toUpperCase: "length (toUpperCase s) = length s"
  by (simp add: toUpperCase_def)

lemma hexchar_lower: "n < 16 \<Longrightarrow> is_lower_hex (hexchar n)"
  unfolding is_lower_hex_def hexchar_def by (rule nth_mem) simp

lemma to_hex_lower: "c \<in> set (to_hex bs) \<Longrightarrow> is_lower_hex c"
proof -
  have b: "unat b div 16 < 16" for b :: byte
    using unsigned_less [of b, where ?'a = nat] by simp
  assume "c \<in> set (to_hex bs)"
  then obtain b where "c \<in> set (hex_byte b)"
    by (auto simp: to_hex_def)
  then show ?thesis
    using b [of b] by (auto simp: hex_byte_def intro: hexchar_lower)
qed

lemma upper_char_digits:
  "upper_char CHR ''0'' = CHR ''0''" "upper_char CHR ''1'' = CHR ''1''"
  "upper_char CHR ''2'' = CHR ''2''" "upper_char CHR ''3'' = CHR ''3''"
  "upper_char CHR ''4'' = CHR ''4''" "upper_char CHR ''5'' = CHR ''5''"
  "upper_char CHR ''6'' = CHR ''6''" "upper_char CHR ''7'' = CHR ''7''"
  "upper_char CHR ''8'' = CHR ''8''" "upper_char CHR ''9'' = CHR ''9''"
  "upper_char CHR ''a'' = CHR ''A''" "upper_char CHR ''b'' = CHR ''B''"
  "upper_char CHR ''c'' = CHR ''C''" "upper_char CHR ''d'' = CHR ''D''"
  "upper_char CHR ''e'' = CHR ''E''" "upper_char CHR ''f'' = CHR ''F''"
  by (simp_all add: upper_char_def)

lemma upper_char_hex: "is_lower_hex c \<Longrightarrow> is_upper_hex (upper_char c)"
  by (auto simp: is_lower_hex_def is_upper_hex_def upper_char_digits)

lemma upper_hex_digest: "list_all is_upper_hex (toUpperCase (to_hex bs))"
  by (auto simp: list_all_iff toUpperCase_def intro: upper_char_hex to_hex_lower)

section \<open>The outer (AEP) signature\<close>

text \<open>
  Claim C3. For all strings \<open>timestamp\<close>, \<open>appKey\<close>, \<open>nonce\<close> and \<open>secret\<close>, the outer
  signature is the SHA-256 digest of \<open>timestamp + appKey + nonce + secret + timestamp\<close>
  rendered in uppercase hexadecimal. Being a function of its four arguments it is
  deterministic, and its value is exactly 64 characters long, each of them one of
  \<open>0123456789ABCDEF\<close>.
\<close>

theorem generateAepSignature_spec:
  "generateAepSignature timestamp appKey nonce secret =
     toUpperCase (to_hex (sha256 (utf8 (timestamp @ appKey @ nonce @ secret @ timestamp))))
   \<and> length (generateAepSignature timestamp appKey nonce secret) = 64
   \<and> list_all is_upper_hex (generateAepSignature timestamp appKey nonce secret)"
  by (simp add: generateAepSignature_def createHash_sha256_hex_def length_toUpperCase
      length_to_hex length_sha256 upper_hex_digest)

section \<open>Known answers of the hash functions\<close>

lemma replicate_numeral: "replicate (numeral k) x = x # replicate (pred_numeral k) x"
  by (simp add: numeral_eq_Suc)

lemma upt_zero_numeral: "[0..<numeral n] = 0 # [Suc 0..<numeral n]"
  by (simp add: upt_conv_Cons)

lemma upt_one_numeral:
  "[Suc 0..<numeral n] = (if Suc 0 < numeral n then Suc 0 # [2..<numeral n] else [])"
proof -
  have "[Suc 0..<numeral n] =
          (if Suc 0 < numeral n then Suc 0 # [Suc (Suc 0)..<numeral n] else [])"
    by (rule upt_rec)
  then show ?thesis
    by (simp only: numeral_2_eq_2)
qed

lemma Suc_Suc_zero: "Suc (Suc 0) = 2"
  by simp

lemmas hex_eval = to_hex_def hex_byte_def hexchar_def bytes_be32_def

lemmas hash_eval = md_pad_def utf8_def be64_def be32_def rotr32_def rotl32_def add32_def
  not32_def replicate_numeral upt_zero_numeral upt_one_numeral chunks.simps Suc_Suc_zero

lemmas sha256_eval = sha256_block_def sha256_schedule_def sha256_next_def
  sha256_K_def sha256_H0_def Ch_def Maj_def bsig0_def bsig1_def ssig0_def ssig1_def

lemmas sm3_eval = sm3_block_def sm3_expand_def sm3_next_def sm3_IV_def
  sm3_P0_def sm3_P1_def sm3_SS1_def sm3_T_def sm3_FF_def sm3_GG_def

lemma pad_abc: "chunks 64 (md_pad [97, 98, 99]) = [block_abc]"
  by (simp add: hash_eval block_abc_def)

lemma sha256_block_abc:
  "sha256_block sha256_H0 block_abc =
     (3128432319, 2399260650, 1094795486, 1571693091, 2953011619, 2518121116, 3021012833, 4060091821)"
  by (simp add: sha256_eval hash_eval block_abc_def)

lemma sha256_bytes_abc:
  "to_hex (sha256 [97, 98, 99]) =
     ''ba7816bf8f01cfea414140de5dae2223b00361a396177a9cb410ff61f20015ad''"
  by (simp add: sha256_def pad_abc sha256_block_abc hex_eval)

lemma sm3_block_abc:
  "sm3_block sm3_IV block_abc =
     (1724379380, 1659825625, 3522352235, 3692094690, 1097319559, 1559426978, 696098859, 2404100320)"
  by (simp add: sm3_eval hash_eval block_abc_def)

lemma sm3_bytes_abc:
  "to_hex (sm3_digest [97, 98, 99]) =
     ''66c7f0f462eeedd9d1f2d46bdc10e4e24167c4875cf2f7a2297da02b8f4ba8e0''"
  by (simp add: sm3_digest_def pad_abc sm3_block_abc hex_eval)

lemma pad_s121: "chunks 64 (md_pad [49, 50, 49]) = [block_s121]"
  by (simp add: hash_eval block_s121_def)

lemma sha256_block_s121:
  "sha256_block sha256_H0 block_s121 =
     (2309627480, 2322989, 3061204712, 345944646, 3343442304, 3813285110, 2041252673, 2752960772)"
  by (simp add: sha256_eval hash_eval block_s121_def)

lemma sha256_bytes_s121:
  "to_hex (sha256 [49, 50, 49]) =
     ''89aa1e580023722db67646e8149eb246c748e180e34a1cf679ab0b41a416d904''"
  by (simp add: sha256_def pad_s121 sha256_block_s121 hex_eval)

lemma sm3_block_s121:
  "sm3_block sm3_IV block_s121 =
     (3034850178, 2069541847, 824119743, 4262283007, 897476122, 4017176666, 4089913535, 2558027458)"
  by (simp add: sm3_eval hash_eval block_s121_def)

lemma sm3_bytes_s121:
  "to_hex (sm3_digest [49, 50, 49]) =
     ''b4e423827b5ab3d7311f11bffe0d46ff357e661aef71405af3c720bf987866c2''"
  by (simp add: sm3_digest_def pad_s121 sm3_block_s121 hex_eval)







lemma sha256_abc:
  "createHash_sha256_hex ''abc'' =
     ''ba7816bf8f01cfea414140de5dae2223b00361a396177a9cb410ff61f20015ad''"
  using sha256_bytes_abc by (simp add: createHash_sha256_hex_def utf8_def)

lemma sm3_abc:
  "sm3 ''abc'' =
     ''66c7f0f462eeedd9d1f2d46bdc10e4e24167c4875cf2f7a2297da02b8f4ba8e0''"
  using sm3_bytes_abc by (simp add: sm3_def sm_utf8ToArray_def sm_lead_def utf8_def)

lemma sha256_s121:
  "createHash_sha256_hex ''121'' =
     ''89aa1e580023722db67646e8149eb246c748e180e34a1cf679ab0b41a416d904''"
  using sha256_bytes_s121 by (simp add: createHash_sha256_hex_def utf8_def)

lemma sm3_s121:
  "sm3 ''121'' =
     ''b4e423827b5ab3d7311f11bffe0d46ff357e661aef71405af3c720bf987866c2''"
  using sm3_bytes_s121 by (simp add: sm3_def sm_utf8ToArray_def sm_lead_def utf8_def)


section \<open>The inner (KA) signature\<close>

lemma sm_lead_ascii:
  assumes "of_char c < (128 :: nat)"
  shows "sm_lead (of_nat (of_char c)) = of_nat (of_char c)"
proof -
  have "unat (of_nat (of_char c) :: byte) = of_char c"
    using assms by (simp add: unat_of_nat)
  then have "unat (of_nat (of_char c) :: byte) < 128"
    using assms by simp
  then have "(of_nat (of_char c) :: byte) \<noteq> 0xF1 \<and> (of_nat (of_char c) :: byte) \<noteq> 0xF2
      \<and> (of_nat (of_char c) :: byte) \<noteq> 0xF3"
    by auto
  then show ?thesis
    by (simp add: sm_lead_def)
qed

lemma lower_hex_ascii: "is_lower_hex c \<Longrightarrow> of_char c < (128 :: nat)"
  by (auto simp: is_lower_hex_def)

lemma sm_plain_append: "sm_plain (a @ b) \<longleftrightarrow> sm_plain a \<and> sm_plain b"
  by (simp add: sm_plain_def utf8_def)

lemma sm_plain_digits10: "sm_plain (digits10 n)"
proof (induction n rule: digits10.induct)
  case (1 n)
  have one: "sm_plain [hexchar d]" if "d < 10" for d
    using that hexchar_lower [of d] by (simp add: sm_plain_def utf8_def sm_lead_ascii lower_hex_ascii)
  show ?case
  proof (cases "n < 10")
    case True
    then show ?thesis by (subst digits10.simps) (simp add: one)
  next
    case False
    then show ?thesis using 1 by (subst digits10.simps) (simp add: sm_plain_append one)
  qed
qed

lemma sm_plain_Number_toString: "sm_plain (Number_toString n)"
  by (simp add: Number_toString_def sm_plain_append sm_plain_digits10)
    (simp add: sm_plain_def utf8_def sm_lead_def)

lemma sm_utf8ToArray_plain: "sm_plain s \<Longrightarrow> sm_utf8ToArray s = utf8 s"
  by (simp add: sm_plain_def sm_utf8ToArray_def list_all_iff map_idI)

text \<open>
  Where sm-crypto encodes the nonce as UTF-8 (no code point of it lies in U+40000 to
  U+FFFFF; every ASCII nonce, such as the client's own UUIDs, is one) and the timestamp is
  an integer that a JavaScript number holds exactly, the inner signature is the SM3 digest
  of the UTF-8 text \<open>timestamp + nonce + timestamp\<close> in uppercase hexadecimal, 64 characters
  long.
\<close>

lemma generateKaSignature_plain_nonce:
  assumes "sm_plain nonce" and "\<bar>timestamp\<bar> < 2 ^ 53"
  shows "generateKaSignature nonce timestamp =
           toUpperCase (to_hex (sm3_digest
             (utf8 (Number_toString timestamp @ nonce @ Number_toString timestamp))))
         \<and> length (generateKaSignature nonce timestamp) = 64
         \<and> list_all is_upper_hex (generateKaSignature nonce timestamp)"
proof -
  have "sm_plain (Number_toString timestamp @ nonce @ Number_toString timestamp)"
    using assms(1) by (simp add: sm_plain_append sm_plain_Number_toString)
  then show ?thesis
    by (simp add: generateKaSignature_def sm3_def sm_utf8ToArray_plain length_toUpperCase
        length_to_hex length_sm3_digest upper_hex_digest)
qed

text \<open>
  On the overlapping input where both layers digest the text \<open>121\<close> (timestamp 1 and nonce
  \<open>2\<close>, the outer layer with the empty application key and secret) the two signatures
  differ: the inner layer is not the outer layer's function.
\<close>

lemma generateKaSignature_not_outer:
  "generateKaSignature ''2'' 1 \<noteq> generateAepSignature ''1'' [] ''2'' []"
proof -
  have "Number_toString 1 = ''1''"
    by (simp add: Number_toString_def digits10.simps hexchar_def)
  then show ?thesis
    by (simp add: generateKaSignature_def generateAepSignature_def sm3_s121 sha256_s121
        toUpperCase_def upper_char_def)
qed


section \<open>The wrapped key\<close>

text \<open>
  Claim C6. For every key and iv (in particular for 32-character hexadecimal ones), the
  wrapped key is the one-byte format marker \<open>04\<close>, written in hexadecimal, followed by the
  uppercase text of the SM2 encryption of exactly \<open>key & iv\<close> under the fixed public key of
  the configuration, in cipher mode 1. Wrapping draws one scalar from the SM2 primitive's
  random source and touches nothing else of the world.
\<close>

theorem encryptKeyWithSm2_spec:
  "fst (encryptKeyWithSm2 doEncrypt key iv w) =
     to_hex [0x04] @ toUpperCase (doEncrypt (key @ ''&'' @ iv) CONFIG_sm2PublicKey 1
                                    (shd (sm2_random w)))
   \<and> take 2 (fst (encryptKeyWithSm2 doEncrypt key iv w)) = ''04''
   \<and> snd (encryptKeyWithSm2 doEncrypt key iv w) = w\<lparr>sm2_random := stl (sm2_random w)\<rparr>"
  by (simp add: encryptKeyWithSm2_def hex_eval)

section \<open>The loop of randomHex\<close>

lemma point_not_hex: "\<not> is_lower_hex CHR ''.''"
  by (simp add: is_lower_hex_def)

lemma takeWhile_until: "c \<notin> set pre \<Longrightarrow> takeWhile (\<lambda>d. d \<noteq> c) (pre @ c # rest) = pre"
  by (induction pre) auto

lemma digits16_lower: "list_all is_lower_hex (digits16 n)"
proof (induction n rule: digits16.induct)
  case (1 n)
  show ?case
  proof (cases "n < 16")
    case True
    then show ?thesis by (subst digits16.simps) (simp add: hexchar_lower)
  next
    case False
    with 1 show ?thesis by (subst digits16.simps) (simp add: hexchar_lower)
  qed
qed

lemma digits16_nonempty: "digits16 n \<noteq> []"
  by (subst digits16.simps) simp

lemma point_notin_digits16: "CHR ''.'' \<notin> set (digits16 n)"
  using digits16_lower [of n] point_not_hex by (auto simp: list_all_iff)

lemma before_point:
  "substring (toString16 x) 0 (indexOf (toString16 x) CHR ''.'') =
     (if fractional x then digits16 (Math_floor x) else [])"
proof (cases x)
  case (Pair m k)
  show ?thesis
  proof (cases "m mod 2 ^ k = 0")
    case True
    then have "indexOf (toString16 x) CHR ''.'' = - 1"
      using point_notin_digits16 [of "m div 2 ^ k"] by (simp add: Pair indexOf_def)
    then show ?thesis
      using True by (simp add: Pair substring_def)
  next
    case False
    then have "indexOf (toString16 x) CHR ''.'' = int (length (digits16 (m div 2 ^ k)))"
      using point_notin_digits16 [of "m div 2 ^ k"]
      by (simp add: Pair indexOf_def takeWhile_until)
    then show ?thesis
      using False by (simp add: Pair substring_def)
  qed
qed

lemma length_padStart_slice: "length (padStart (slice s 0 (int n)) n c) = n"
  by (simp add: padStart_def slice_def)

lemma zero_is_hex: "is_lower_hex CHR ''0''"
  by (simp add: is_lower_hex_def)

lemma lower_hex_padStart_slice:
  "list_all is_lower_hex s \<Longrightarrow> list_all is_lower_hex (padStart (slice s 0 (int n)) n CHR ''0'')"
  by (auto simp: padStart_def slice_def list_all_iff zero_is_hex dest: in_set_takeD)

lemma randomHex_loop_step:
  "randomHex_loop len result w =
     (if length result < len
      then randomHex_loop len (result @ draw_text (shd (random w)))
             (w\<lparr>random := stl (random w)\<rparr>)
      else Some (result, w))"
  by (subst randomHex_loop.simps) (simp add: before_point draw_text_def Math_random_def)

lemma productive_sdrop: "productive w \<Longrightarrow> productive (w\<lparr>random := sdrop n (random w)\<rparr>)"
proof -
  assume p: "productive w"
  show ?thesis
    unfolding productive_def
  proof
    fix i
    from p obtain j where "i + n \<le> j" "fractional (f64_times (random w !! j) (10 ^ 10))"
      unfolding productive_def by blast
    then have "i \<le> j - n \<and> fractional (f64_times (sdrop n (random w) !! (j - n)) (10 ^ 10))"
      by (simp add: sdrop_snth)
    then show "\<exists>j\<ge>i. fractional
        (f64_times (random (w\<lparr>random := sdrop n (random w)\<rparr>) !! j) (10 ^ 10))"
      by auto
  qed
qed

lemma randomHex_loop_progress0:
  assumes "fractional (f64_times (shd (random w)) (10 ^ 10))" and "length result < len"
  shows "\<exists>t n. t \<noteq> [] \<and> list_all is_lower_hex t
           \<and> randomHex_loop len result w =
               randomHex_loop len (result @ t) (w\<lparr>random := sdrop n (random w)\<rparr>)"
proof -
  have "draw_text (shd (random w)) \<noteq> []"
    "list_all is_lower_hex (draw_text (shd (random w)))"
    using assms(1) by (simp_all add: draw_text_def digits16_nonempty digits16_lower)
  moreover have "randomHex_loop len result w =
      randomHex_loop len (result @ draw_text (shd (random w)))
        (w\<lparr>random := sdrop 1 (random w)\<rparr>)"
    using assms(2) by (subst randomHex_loop_step) simp
  ultimately show ?thesis
    by blast
qed

text \<open>From a draw with a fractional product at position \<open>j\<close>, the loop reaches a longer
  text after at most \<open>j + 1\<close> draws.\<close>

lemma randomHex_loop_progress:
  assumes "fractional (f64_times (random w !! j) (10 ^ 10))" and "length result < len"
  shows "\<exists>t n. t \<noteq> [] \<and> list_all is_lower_hex t
           \<and> randomHex_loop len result w =
               randomHex_loop len (result @ t) (w\<lparr>random := sdrop n (random w)\<rparr>)"
  using assms
proof (induction j arbitrary: w)
  case 0
  then show ?case
    using randomHex_loop_progress0 [of w result len] by simp
next
  case (Suc j)
  show ?case
  proof (cases "fractional (f64_times (shd (random w)) (10 ^ 10))")
    case True
    then show ?thesis
      using randomHex_loop_progress0 [of w result len] Suc.prems(2) by simp
  next
    case False
    let ?w = "w\<lparr>random := stl (random w)\<rparr>"
    have skip: "randomHex_loop len result w = randomHex_loop len result ?w"
      using False Suc.prems(2) by (subst randomHex_loop_step) (simp add: draw_text_def)
    have "fractional (f64_times (random ?w !! j) (10 ^ 10))"
      using Suc.prems(1) by simp
    from Suc.IH [OF this Suc.prems(2)] obtain t n where
      t: "t \<noteq> []" "list_all is_lower_hex t"
      and r: "randomHex_loop len result ?w =
          randomHex_loop len (result @ t) (?w\<lparr>random := sdrop n (random ?w)\<rparr>)"
      by blast
    have "?w\<lparr>random := sdrop n (random ?w)\<rparr> = w\<lparr>random := sdrop (Suc n) (random w)\<rparr>"
      by simp
    with t r skip show ?thesis
      by metis
  qed
qed

lemma randomHex_loop_returns:
  assumes "productive w" and "list_all is_lower_hex result"
  shows "\<exists>r n. randomHex_loop len result w = Some (r, w\<lparr>random := sdrop n (random w)\<rparr>)
           \<and> list_all is_lower_hex r"
  using assms
proof (induction "len - length result" arbitrary: result w rule: less_induct)
  case less
  show ?case
  proof (cases "length result < len")
    case False
    then have "randomHex_loop len result w = Some (result, w\<lparr>random := sdrop 0 (random w)\<rparr>)"
      by (subst randomHex_loop_step) simp
    with less.prems(2) show ?thesis
      by blast
  next
    case True
    from less.prems(1) obtain j where "fractional (f64_times (random w !! j) (10 ^ 10))"
      unfolding productive_def by blast
    from randomHex_loop_progress [OF this True] obtain t n where
      t: "t \<noteq> []" "list_all is_lower_hex t"
      and r: "randomHex_loop len result w =
          randomHex_loop len (result @ t) (w\<lparr>random := sdrop n (random w)\<rparr>)"
      by blast
    let ?w = "w\<lparr>random := sdrop n (random w)\<rparr>"
    have "len - length (result @ t) < len - length result"
      using True t(1) by (cases t) auto
    from less.hyps [OF this productive_sdrop [OF less.prems(1)], of n] t(2) less.prems(2)
    obtain r' n' where
      "randomHex_loop len (result @ t) ?w = Some (r', ?w\<lparr>random := sdrop n' (random ?w)\<rparr>)"
      "list_all is_lower_hex r'"
      by auto
    moreover have "?w\<lparr>random := sdrop n' (random ?w)\<rparr> = w\<lparr>random := sdrop (n + n') (random w)\<rparr>"
      by (simp add: sdrop_add)
    ultimately show ?thesis
      using r by metis
  qed
qed

text \<open>In a productive world \<^verbatim>\<open>randomHex(n)\<close> returns \<open>n\<close> lowercase hexadecimal characters,
  and leaves a world that differs only by the draws consumed.\<close>

lemma randomHex_returns:
  assumes "productive w"
  shows "\<exists>s n. randomHex len w = Some (s, w\<lparr>random := sdrop n (random w)\<rparr>)
           \<and> length s = len \<and> list_all is_lower_hex s"
proof -
  from randomHex_loop_returns [OF assms, of "[]" len] obtain r n where
    "randomHex_loop len [] w = Some (r, w\<lparr>random := sdrop n (random w)\<rparr>)"
    "list_all is_lower_hex r"
    by auto
  then show ?thesis
    by (auto simp: randomHex_def length_padStart_slice lower_hex_padStart_slice)
qed




end
